theory Spec2Isabelle
  imports Complex_Main "HOL-Library.Word" "HOL-Library.AList"
begin

section \<open>Values, documents and the Python library\<close>

text \<open>
  The service of \<^verbatim>\<open>server.py\<close> keeps three collections of documents in a document
  store and exposes them through handlers. A document is a Python dict from field names
  to values; the same values travel in request payloads, in model instances and in the
  store.
\<close>

record datetime =
  year :: nat
  month :: nat
  day :: nat
  hour :: nat
  minute :: nat
  second :: nat
  microsecond :: nat
  tzinfo :: "int option"

datatype pyval =
    PNone
  | PBool bool
  | PInt int
  | PFloat real
  | PStr string
  | PList "pyval list"
  | PDict "(string \<times> pyval) list"
  | PDatetime datetime
  | PObjectId nat

text \<open>
  A dict keeps its keys in insertion order: an association list, read with \<open>map_of\<close>,
  written with \<open>AList.update\<close> (which replaces the value of a key that is present
  and appends a new key at the end).
\<close>

type_synonym doc = "(string \<times> pyval) list"

datatype error =
    HTTPException nat string
  | ValidationError
  | ValueError
  | KeyError
  | AttributeError

text \<open>
  The functions of the Python library that the handlers call and whose code is not part
  of the repository are parameters of the model: the lax-mode coercions of the schema
  layer for inputs that do not already have the field's type, and the ISO-8601 printer
  and parser of \<^verbatim>\<open>datetime\<close> (the parser raises \<^verbatim>\<open>ValueError\<close>, here \<open>None\<close>).
\<close>

record pylib =
  lax_float :: "pyval \<Rightarrow> real option"
  lax_int :: "pyval \<Rightarrow> int option"
  lax_datetime :: "pyval \<Rightarrow> datetime option"
  isoformat :: "datetime \<Rightarrow> string"
  fromisoformat :: "string \<Rightarrow> datetime option"

text \<open>\<^verbatim>\<open>datetime.now(timezone.utc)\<close>: the reading of the clock, tagged with offset 0.\<close>

definition datetime_now_utc :: "datetime \<Rightarrow> datetime" where
  "datetime_now_utc clock = clock\<lparr>tzinfo := Some 0\<rparr>"

text \<open>
  \<^verbatim>\<open>str(uuid.uuid4())\<close>: the 128-bit value is drawn at random; its string form is 32
  lower-case hexadecimal digits in groups of 8, 4, 4, 4 and 12.
\<close>

definition hexdigit :: "nat \<Rightarrow> char" where
  "hexdigit n = ''0123456789abcdef'' ! (n mod 16)"

fun hex_fixed :: "nat \<Rightarrow> nat \<Rightarrow> string" where
  "hex_fixed 0 n = []"
| "hex_fixed (Suc k) n = hex_fixed k (n div 16) @ [hexdigit n]"

definition uuid_str :: "128 word \<Rightarrow> string" where
  "uuid_str u =
     (let hex = hex_fixed 32 (unat u)
      in take 8 hex @ ''-'' @ take 4 (drop 8 hex) @ ''-'' @ take 4 (drop 12 hex) @ ''-''
         @ take 4 (drop 16 hex) @ ''-'' @ drop 20 hex)"

section \<open>Resource schemas\<close>

datatype ftype = TStr | TFloat | TInt | TStrList | TDatetime

datatype fdefault =
    Required
  | DefaultFactoryUuid
  | DefaultFactoryNow
  | DefaultValue pyval

type_synonym schema = "(string \<times> ftype \<times> fdefault) list"

definition DestinationCreate :: schema where
  "DestinationCreate =
     [(''name'', TStr, Required),
      (''region'', TStr, Required),
      (''description'', TStr, Required),
      (''image_url'', TStr, Required),
      (''highlights'', TStrList, Required),
      (''best_season'', TStr, Required)]"

definition Destination :: schema where
  "Destination =
     [(''id'', TStr, DefaultFactoryUuid),
      (''name'', TStr, Required),
      (''region'', TStr, Required),
      (''description'', TStr, Required),
      (''image_url'', TStr, Required),
      (''highlights'', TStrList, Required),
      (''best_season'', TStr, Required)]"

definition TripPackageCreate :: schema where
  "TripPackageCreate =
     [(''destination_id'', TStr, Required),
      (''destination_name'', TStr, Required),
      (''title'', TStr, Required),
      (''duration'', TStr, Required),
      (''price_veg'', TFloat, Required),
      (''price_non_veg'', TFloat, Required),
      (''pickup_time'', TStr, Required),
      (''itinerary'', TStrList, Required),
      (''inclusions'', TStrList, Required),
      (''exclusions'', TStrList, Required),
      (''image_url'', TStr, Required)]"

definition TripPackage :: schema where
  "TripPackage =
     [(''id'', TStr, DefaultFactoryUuid),
      (''destination_id'', TStr, Required),
      (''destination_name'', TStr, Required),
      (''title'', TStr, Required),
      (''duration'', TStr, Required),
      (''price_veg'', TFloat, Required),
      (''price_non_veg'', TFloat, Required),
      (''pickup_time'', TStr, Required),
      (''itinerary'', TStrList, Required),
      (''inclusions'', TStrList, Required),
      (''exclusions'', TStrList, Required),
      (''image_url'', TStr, Required)]"

definition BookingCreate :: schema where
  "BookingCreate =
     [(''trip_id'', TStr, Required),
      (''trip_title'', TStr, Required),
      (''customer_name'', TStr, Required),
      (''customer_email'', TStr, Required),
      (''customer_phone'', TStr, Required),
      (''travel_date'', TStr, Required),
      (''guests'', TInt, Required),
      (''meal_preference'', TStr, Required),
      (''total_amount'', TFloat, Required)]"

definition Booking :: schema where
  "Booking =
     [(''id'', TStr, DefaultFactoryUuid),
      (''trip_id'', TStr, Required),
      (''trip_title'', TStr, Required),
      (''customer_name'', TStr, Required),
      (''customer_email'', TStr, Required),
      (''customer_phone'', TStr, Required),
      (''travel_date'', TStr, Required),
      (''guests'', TInt, Required),
      (''meal_preference'', TStr, Required),
      (''total_amount'', TFloat, Required),
      (''booking_date'', TDatetime, DefaultFactoryNow),
      (''status'', TStr, DefaultValue (PStr ''confirmed''))]"

text \<open>
  Validation of one field: a value that already has the field's type is kept, an
  integer is accepted for a float field, and every other input goes to the library's
  lax coercion. A string field accepts strings only, a list-of-strings field lists of
  strings only.
\<close>

fun is_str :: "pyval \<Rightarrow> bool" where
  "is_str (PStr s) = True"
| "is_str _ = False"

fun validate_field :: "pylib \<Rightarrow> ftype \<Rightarrow> pyval \<Rightarrow> pyval option" where
  "validate_field L TStr v = (if is_str v then Some v else None)"
| "validate_field L TStrList v =
     (case v of PList xs \<Rightarrow> (if list_all is_str xs then Some v else None) | _ \<Rightarrow> None)"
| "validate_field L TFloat v =
     (case v of
        PFloat r \<Rightarrow> Some v
      | PInt i \<Rightarrow> Some (PFloat (of_int i))
      | _ \<Rightarrow> map_option PFloat (lax_float L v))"
| "validate_field L TInt v =
     (case v of PInt i \<Rightarrow> Some v | _ \<Rightarrow> map_option PInt (lax_int L v))"
| "validate_field L TDatetime v =
     (case v of PDatetime d \<Rightarrow> Some v | _ \<Rightarrow> map_option PDatetime (lax_datetime L v))"

text \<open>
  The value of a field with a default when the input does not give it: the identifier
  is the string of a fresh UUID, the booking date the current time in UTC.
\<close>

fun default_value :: "128 word \<Rightarrow> datetime \<Rightarrow> fdefault \<Rightarrow> pyval option" where
  "default_value u clock Required = None"
| "default_value u clock DefaultFactoryUuid = Some (PStr (uuid_str u))"
| "default_value u clock DefaultFactoryNow = Some (PDatetime (datetime_now_utc clock))"
| "default_value u clock (DefaultValue v) = Some v"

text \<open>
  Construction of a model instance from keyword arguments (or from a request body).
  Only the declared fields are read, so keys the schema does not declare are ignored;
  a missing required field or a value of the wrong type is a validation error. The
  instance is the dict of its fields in the order of declaration, which is also what
  \<^verbatim>\<open>model_dump()\<close> returns.
\<close>

fun model_init :: "pylib \<Rightarrow> 128 word \<Rightarrow> datetime \<Rightarrow> schema \<Rightarrow> doc \<Rightarrow> error + doc" where
  "model_init L u clock [] kwargs = Inr []"
| "model_init L u clock ((k, ty, dflt) # fs) kwargs =
     (case (case map_of kwargs k of
              Some v \<Rightarrow> validate_field L ty v
            | None \<Rightarrow> default_value u clock dflt) of
        None \<Rightarrow> Inl ValidationError
      | Some v \<Rightarrow>
          (case model_init L u clock fs kwargs of
             Inl e \<Rightarrow> Inl e
           | Inr d \<Rightarrow> Inr ((k, v) # d)))"

definition model_dump :: "doc \<Rightarrow> doc" where
  "model_dump obj = obj"

section \<open>The document store\<close>

text \<open>
  The store is an external collaborator, used through a narrow interface: equality
  filters, a projection that excludes fields, a cap on the number of results, insertion
  and deletion. A collection is the list of its documents in insertion order. Every
  stored document carries the store-internal field \<^verbatim>\<open>_id\<close>, which the client assigns
  from a fresh supply when the inserted document has none.
\<close>

record db =
  destinations :: "doc list"
  trips :: "doc list"
  bookings :: "doc list"
  next_oid :: nat

definition matches :: "doc \<Rightarrow> doc \<Rightarrow> bool" where
  "matches query d = list_all (\<lambda>(k, v). map_of d k = Some v) query"

definition project :: "string list \<Rightarrow> doc \<Rightarrow> doc" where
  "project excluded d = filter (\<lambda>(k, v). k \<notin> set excluded) d"

definition find_docs :: "doc \<Rightarrow> string list \<Rightarrow> doc list \<Rightarrow> doc list" where
  "find_docs query excluded coll = map (project excluded) (filter (matches query) coll)"

definition to_list :: "nat \<Rightarrow> doc list \<Rightarrow> doc list" where
  "to_list n cursor = take n cursor"

definition find_one :: "doc \<Rightarrow> string list \<Rightarrow> doc list \<Rightarrow> doc option" where
  "find_one query excluded coll =
     (case filter (matches query) coll of
        [] \<Rightarrow> None
      | d # _ \<Rightarrow> Some (project excluded d))"

definition with_id :: "nat \<Rightarrow> doc \<Rightarrow> doc" where
  "with_id n d =
     (if map_of d ''_id'' = None then AList.update ''_id'' (PObjectId n) d else d)"

definition insert_one :: "doc \<Rightarrow> nat \<Rightarrow> doc list \<Rightarrow> doc list" where
  "insert_one d n coll = coll @ [with_id n d]"

definition insert_many :: "doc list \<Rightarrow> nat \<Rightarrow> doc list \<Rightarrow> doc list" where
  "insert_many ds n coll = coll @ map (\<lambda>(i, d). with_id i d) (enumerate n ds)"

definition delete_many :: "doc \<Rightarrow> doc list \<Rightarrow> doc list" where
  "delete_many query coll = filter (\<lambda>d. \<not> matches query d) coll"

section \<open>Handlers\<close>

text \<open>
  Each handler takes the state of the store; a handler that writes returns the new
  state with its response. The random UUID and the reading of the clock that a
  construction draws are arguments.
\<close>

definition root_api :: doc where
  "root_api = [(''message'', PStr ''Northeast India & Sikkim Travel API'')]"

definition get_destinations :: "db \<Rightarrow> doc list" where
  "get_destinations st = to_list 1000 (find_docs [] [''_id''] (destinations st))"

definition create_destination ::
  "pylib \<Rightarrow> 128 word \<Rightarrow> datetime \<Rightarrow> db \<Rightarrow> doc \<Rightarrow> (error + doc) \<times> db" where
  "create_destination L u clock st input =
     (let dest_dict = model_dump input
      in case model_init L u clock Destination dest_dict of
           Inl e \<Rightarrow> (Inl e, st)
         | Inr dest_obj \<Rightarrow>
             (let doc = model_dump dest_obj
              in (Inr dest_obj,
                  st\<lparr>destinations := insert_one doc (next_oid st) (destinations st),
                     next_oid := Suc (next_oid st)\<rparr>)))"

text \<open>
  The filter of the trip listing is built only when \<^verbatim>\<open>destination_id\<close> is truthy:
  neither \<^verbatim>\<open>None\<close> nor the empty string.
\<close>

definition get_trips :: "db \<Rightarrow> string option \<Rightarrow> doc list" where
  "get_trips st destination_id =
     (let query = (case destination_id of
                     None \<Rightarrow> []
                   | Some x \<Rightarrow> if x \<noteq> [] then [(''destination_id'', PStr x)] else [])
      in to_list 1000 (find_docs query [''_id''] (trips st)))"

text \<open>\<^verbatim>\<open>if not trip\<close> holds for \<^verbatim>\<open>None\<close> and for the empty dict.\<close>

definition get_trip :: "db \<Rightarrow> string \<Rightarrow> error + doc" where
  "get_trip st trip_id =
     (case find_one [(''id'', PStr trip_id)] [''_id''] (trips st) of
        None \<Rightarrow> Inl (HTTPException 404 ''Trip not found'')
      | Some trip \<Rightarrow>
          if trip = [] then Inl (HTTPException 404 ''Trip not found'') else Inr trip)"

definition create_trip ::
  "pylib \<Rightarrow> 128 word \<Rightarrow> datetime \<Rightarrow> db \<Rightarrow> doc \<Rightarrow> (error + doc) \<times> db" where
  "create_trip L u clock st input =
     (let trip_dict = model_dump input
      in case model_init L u clock TripPackage trip_dict of
           Inl e \<Rightarrow> (Inl e, st)
         | Inr trip_obj \<Rightarrow>
             (let doc = model_dump trip_obj
              in (Inr trip_obj,
                  st\<lparr>trips := insert_one doc (next_oid st) (trips st),
                     next_oid := Suc (next_oid st)\<rparr>)))"

text \<open>The body of the loop of \<^verbatim>\<open>get_bookings\<close>, and the loop.\<close>

definition get_bookings_body :: "pylib \<Rightarrow> doc \<Rightarrow> error + doc" where
  "get_bookings_body L booking =
     (case map_of booking ''booking_date'' of
        Some (PStr s) \<Rightarrow>
          (case fromisoformat L s of
             None \<Rightarrow> Inl ValueError
           | Some d \<Rightarrow> Inr (AList.update ''booking_date'' (PDatetime d) booking))
      | _ \<Rightarrow> Inr booking)"

fun get_bookings_loop :: "pylib \<Rightarrow> doc list \<Rightarrow> error + doc list" where
  "get_bookings_loop L [] = Inr []"
| "get_bookings_loop L (booking # rest) =
     (case get_bookings_body L booking of
        Inl e \<Rightarrow> Inl e
      | Inr b \<Rightarrow>
          (case get_bookings_loop L rest of
             Inl e \<Rightarrow> Inl e
           | Inr bs \<Rightarrow> Inr (b # bs)))"

definition get_bookings :: "pylib \<Rightarrow> db \<Rightarrow> error + doc list" where
  "get_bookings L st =
     (let bookings = to_list 1000 (find_docs [] [''_id''] (bookings st))
      in get_bookings_loop L bookings)"

definition create_booking ::
  "pylib \<Rightarrow> 128 word \<Rightarrow> datetime \<Rightarrow> db \<Rightarrow> doc \<Rightarrow> (error + doc) \<times> db" where
  "create_booking L u clock st input =
     (let booking_dict = model_dump input
      in case model_init L u clock Booking booking_dict of
           Inl e \<Rightarrow> (Inl e, st)
         | Inr booking_obj \<Rightarrow>
             (let doc = model_dump booking_obj
              in case map_of doc ''booking_date'' of
                   None \<Rightarrow> (Inl KeyError, st)
                 | Some (PDatetime d) \<Rightarrow>
                     (let doc = AList.update ''booking_date'' (PStr (isoformat L d)) doc
                      in (Inr booking_obj,
                          st\<lparr>bookings := insert_one doc (next_oid st) (bookings st),
                             next_oid := Suc (next_oid st)\<rparr>))
                 | Some _ \<Rightarrow> (Inl AttributeError, st)))"

subsection \<open>The seed operation\<close>

definition destinations_data :: "doc list" where
  "destinations_data =
     [[(''id'', PStr ''dest-1''),
       (''name'', PStr ''Gangtok''),
       (''region'', PStr ''Sikkim''),
       (''description'',
        PStr ''The capital of Sikkim, nestled in the Himalayas with stunning mountain views and rich Buddhist culture.''),
       (''image_url'',
        PStr ''https://images.unsplash.com/photo-1761820228515-b79043c31856?crop=entropy&cs=srgb&fm=jpg&ixid=M3w3NDQ2NDN8MHwxfHNlYXJjaHwxfHxIaW1hbGF5YW4lMjBtb3VudGFpbiUyMHZpc3RhfGVufDB8fHx8MTc2MjEwNDgwNXww&ixlib=rb-4.1.0&q=85''),
       (''highlights'', PList
         [PStr ''Tsomgo Lake'',
          PStr ''Nathula Pass'',
          PStr ''Rumtek Monastery'',
          PStr ''MG Marg'']),
       (''best_season'', PStr ''March to June, September to December'')],
      [(''id'', PStr ''dest-2''),
       (''name'', PStr ''Darjeeling''),
       (''region'', PStr ''West Bengal''),
       (''description'',
        PStr ''Famous for its tea gardens, toy train, and breathtaking views of Kanchenjunga.''),
       (''image_url'',
        PStr ''https://images.unsplash.com/photo-1742286087572-937f08b947b8?crop=entropy&cs=srgb&fm=jpg&ixid=M3w3NDQ2Mzl8MHwxfHNlYXJjaHwxfHx0ZWElMjBnYXJkZW4lMjBsYW5kc2NhcGV8ZW58MHx8fHwxNzYyMTA0ODA1fDA&ixlib=rb-4.1.0&q=85''),
       (''highlights'', PList
         [PStr ''Tiger Hill'',
          PStr ''Darjeeling Himalayan Railway'',
          PStr ''Tea Gardens'',
          PStr ''Batasia Loop'']),
       (''best_season'', PStr ''April to June, September to November'')],
      [(''id'', PStr ''dest-3''),
       (''name'', PStr ''Tawang''),
       (''region'', PStr ''Arunachal Pradesh''),
       (''description'',
        PStr ''Home to India's largest monastery and spectacular mountain landscapes.''),
       (''image_url'',
        PStr ''https://images.unsplash.com/photo-1633538028057-838fd4e027a4?crop=entropy&cs=srgb&fm=jpg&ixid=M3w3NTY2NjZ8MHwxfHNlYXJjaHwxfHxCdWRkaGlzdCUyMG1vbmFzdGVyeXxlbnwwfHx8fDE3NjIxMDQ4MDZ8MA&ixlib=rb-4.1.0&q=85''),
       (''highlights'', PList
         [PStr ''Tawang Monastery'',
          PStr ''Sela Pass'',
          PStr ''Madhuri Lake'',
          PStr ''Bumla Pass'']),
       (''best_season'', PStr ''March to October'')],
      [(''id'', PStr ''dest-4''),
       (''name'', PStr ''Shillong''),
       (''region'', PStr ''Meghalaya''),
       (''description'',
        PStr ''The 'Scotland of the East' with rolling hills, waterfalls, and pleasant weather.''),
       (''image_url'',
        PStr ''https://images.unsplash.com/photo-1752063497357-4a9e0b765771?crop=entropy&cs=srgb&fm=jpg&ixid=M3w3NDQ2NDN8MHwxfHNlYXJjaHwyfHxIaW1hbGF5YW4lMjBtb3VudGFpbiUyMHZpc3RhfGVufDB8fHx8MTc2MjEwNDgwNXww&ixlib=rb-4.1.0&q=85''),
       (''highlights'', PList
         [PStr ''Elephant Falls'',
          PStr ''Shillong Peak'',
          PStr ''Ward's Lake'',
          PStr ''Don Bosco Museum'']),
       (''best_season'', PStr ''October to May'')]]"

definition trips_data :: "doc list" where
  "trips_data =
     [[(''id'', PStr ''trip-1''),
       (''destination_id'', PStr ''dest-1''),
       (''destination_name'', PStr ''Gangtok''),
       (''title'', PStr ''Gangtok Paradise - 5 Days''),
       (''duration'', PStr ''5 Days / 4 Nights''),
       (''price_veg'', PInt 18500),
       (''price_non_veg'', PInt 21000),
       (''pickup_time'', PStr ''8:00 AM from Bagdogra Airport/NJP Station''),
       (''itinerary'', PList
         [PStr ''Day 1: Arrival in Gangtok, check-in, MG Marg evening walk'',
          PStr ''Day 2: Tsomgo Lake & Baba Mandir excursion'',
          PStr ''Day 3: Nathula Pass visit (subject to permit)'',
          PStr ''Day 4: Rumtek Monastery, Hanuman Tok, Tashi View Point'',
          PStr ''Day 5: Departure to Bagdogra/NJP'']),
       (''inclusions'', PList
         [PStr ''Accommodation'',
          PStr ''Daily breakfast, lunch & dinner'',
          PStr ''All transfers'',
          PStr ''Sightseeing as per itinerary'',
          PStr ''Permit fees'']),
       (''exclusions'', PList
         [PStr ''Personal expenses'',
          PStr ''Travel insurance'',
          PStr ''Any meals not mentioned'']),
       (''image_url'',
        PStr ''https://images.unsplash.com/photo-1761820228515-b79043c31856?crop=entropy&cs=srgb&fm=jpg&ixid=M3w3NDQ2NDN8MHwxfHNlYXJjaHwxfHxIaW1hbGF5YW4lMjBtb3VudGFpbiUyMHZpc3RhfGVufDB8fHx8MTc2MjEwNDgwNXww&ixlib=rb-4.1.0&q=85'')],
      [(''id'', PStr ''trip-2''),
       (''destination_id'', PStr ''dest-2''),
       (''destination_name'', PStr ''Darjeeling''),
       (''title'', PStr ''Darjeeling Delight - 4 Days''),
       (''duration'', PStr ''4 Days / 3 Nights''),
       (''price_veg'', PInt 14500),
       (''price_non_veg'', PInt 16500),
       (''pickup_time'', PStr ''7:00 AM from Bagdogra Airport/NJP Station''),
       (''itinerary'', PList
         [PStr ''Day 1: Arrival in Darjeeling, check-in, Mall Road exploration'',
          PStr ''Day 2: Tiger Hill sunrise, Ghoom Monastery, Batasia Loop, toy train ride'',
          PStr ''Day 3: Tea garden visit, Happy Valley, Himalayan Mountaineering Institute'',
          PStr ''Day 4: Departure to Bagdogra/NJP'']),
       (''inclusions'', PList
         [PStr ''Accommodation'',
          PStr ''Daily breakfast, lunch & dinner'',
          PStr ''All transfers'',
          PStr ''Sightseeing'',
          PStr ''Toy train tickets'']),
       (''exclusions'', PList
         [PStr ''Personal expenses'',
          PStr ''Camera fees'',
          PStr ''Tips'']),
       (''image_url'',
        PStr ''https://images.unsplash.com/photo-1742286087572-937f08b947b8?crop=entropy&cs=srgb&fm=jpg&ixid=M3w3NDQ2Mzl8MHwxfHNlYXJjaHwxfHx0ZWElMjBnYXJkZW4lMjBsYW5kc2NhcGV8ZW58MHx8fHwxNzYyMTA0ODA1fDA&ixlib=rb-4.1.0&q=85'')],
      [(''id'', PStr ''trip-3''),
       (''destination_id'', PStr ''dest-3''),
       (''destination_name'', PStr ''Tawang''),
       (''title'', PStr ''Tawang Tranquility - 6 Days''),
       (''duration'', PStr ''6 Days / 5 Nights''),
       (''price_veg'', PInt 25500),
       (''price_non_veg'', PInt 28500),
       (''pickup_time'', PStr ''6:00 AM from Guwahati Airport/Station''),
       (''itinerary'', PList
         [PStr ''Day 1: Guwahati to Bomdila (overnight journey)'',
          PStr ''Day 2: Bomdila to Tawang via Sela Pass'',
          PStr ''Day 3: Tawang Monastery, War Memorial, local market'',
          PStr ''Day 4: Bumla Pass & Madhuri Lake excursion'',
          PStr ''Day 5: Tawang to Bomdila'',
          PStr ''Day 6: Bomdila to Guwahati, departure'']),
       (''inclusions'', PList
         [PStr ''Accommodation'',
          PStr ''All meals'',
          PStr ''Permits & entry fees'',
          PStr ''Transfers'',
          PStr ''Guide services'']),
       (''exclusions'', PList
         [PStr ''Personal expenses'',
          PStr ''Travel insurance'',
          PStr ''Medical expenses'',
          PStr ''Laundry'']),
       (''image_url'',
        PStr ''https://images.unsplash.com/photo-1633538028057-838fd4e027a4?crop=entropy&cs=srgb&fm=jpg&ixid=M3w3NTY2NjZ8MHwxfHNlYXJjaHwxfHxCdWRkaGlzdCUyMG1vbmFzdGVyeXxlbnwwfHx8fDE3NjIxMDQ4MDZ8MA&ixlib=rb-4.1.0&q=85'')],
      [(''id'', PStr ''trip-4''),
       (''destination_id'', PStr ''dest-4''),
       (''destination_name'', PStr ''Shillong''),
       (''title'', PStr ''Shillong Explorer - 4 Days''),
       (''duration'', PStr ''4 Days / 3 Nights''),
       (''price_veg'', PInt 15400),
       (''price_non_veg'', PInt 17400),
       (''pickup_time'', PStr ''9:00 AM from Guwahati Airport/Station''),
       (''itinerary'', PList
         [PStr ''Day 1: Guwahati to Shillong, Umiam Lake visit'',
          PStr ''Day 2: Cherrapunji day trip - Nohkalikai Falls, Seven Sisters Falls, Mawsmai Cave'',
          PStr ''Day 3: Elephant Falls, Shillong Peak, Ward's Lake, Police Bazaar'',
          PStr ''Day 4: Departure to Guwahati'']),
       (''inclusions'', PList
         [PStr ''Accommodation'',
          PStr ''Breakfast, lunch & dinner'',
          PStr ''Transfers'',
          PStr ''Sightseeing'',
          PStr ''Entry tickets'']),
       (''exclusions'', PList
         [PStr ''Personal expenses'',
          PStr ''Camera fees'',
          PStr ''Adventure activities'']),
       (''image_url'',
        PStr ''https://images.unsplash.com/photo-1752063497357-4a9e0b765771?crop=entropy&cs=srgb&fm=jpg&ixid=M3w3NDQ2NDN8MHwxfHNlYXJjaHwyfHxIaW1hbGF5YW4lMjBtb3VudGFpbiUyMHZpc3RhfGVufDB8fHx8MTc2MjEwNDgwNXww&ixlib=rb-4.1.0&q=85'')]]"

definition seed_data :: "db \<Rightarrow> doc \<times> db" where
  "seed_data st =
     (let st1 = st\<lparr>destinations := delete_many [] (destinations st)\<rparr>;
          st2 = st1\<lparr>trips := delete_many [] (trips st1)\<rparr>;
          st3 = st2\<lparr>destinations :=
                      insert_many destinations_data (next_oid st2) (destinations st2),
                    next_oid := next_oid st2 + length destinations_data\<rparr>;
          st4 = st3\<lparr>trips := insert_many trips_data (next_oid st3) (trips st3),
                    next_oid := next_oid st3 + length trips_data\<rparr>
      in ([(''message'', PStr ''Database seeded successfully''),
           (''destinations'', PInt (int (length destinations_data))),
           (''trips'', PInt (int (length trips_data)))],
          st4))"

subsection \<open>The router\<close>

text \<open>
  The router binds the handlers to the requests. A request body is validated against
  the handler's input schema before the handler runs; the input schemas have no
  defaults, so neither the UUID nor the clock is read there.
\<close>

datatype request =
    GetRoot
  | GetDestinations
  | PostDestinations doc
  | GetTrips "string option"
  | GetTrip string
  | PostTrips doc
  | GetBookings
  | PostBookings doc
  | PostSeed

datatype response = One doc | Many "doc list"

definition with_body ::
  "pylib \<Rightarrow> 128 word \<Rightarrow> datetime \<Rightarrow> schema \<Rightarrow> doc \<Rightarrow> db
     \<Rightarrow> (doc \<Rightarrow> (error + doc) \<times> db) \<Rightarrow> (error + response) \<times> db" where
  "with_body L u clock sch body st handler =
     (case model_init L u clock sch body of
        Inl e \<Rightarrow> (Inl e, st)
      | Inr input \<Rightarrow> (case handler input of (r, st') \<Rightarrow> (map_sum (\<lambda>e. e) One r, st')))"

fun api_router ::
  "pylib \<Rightarrow> 128 word \<Rightarrow> datetime \<Rightarrow> request \<Rightarrow> db \<Rightarrow> (error + response) \<times> db" where
  "api_router L u clock GetRoot st = (Inr (One root_api), st)"
| "api_router L u clock GetDestinations st = (Inr (Many (get_destinations st)), st)"
| "api_router L u clock (PostDestinations body) st =
     with_body L u clock DestinationCreate body st (create_destination L u clock st)"
| "api_router L u clock (GetTrips destination_id) st =
     (Inr (Many (get_trips st destination_id)), st)"
| "api_router L u clock (GetTrip trip_id) st = (map_sum (\<lambda>e. e) One (get_trip st trip_id), st)"
| "api_router L u clock (PostTrips body) st =
     with_body L u clock TripPackageCreate body st (create_trip L u clock st)"
| "api_router L u clock GetBookings st = (map_sum (\<lambda>e. e) Many (get_bookings L st), st)"
| "api_router L u clock (PostBookings body) st =
     with_body L u clock BookingCreate body st (create_booking L u clock st)"
| "api_router L u clock PostSeed st = (case seed_data st of (r, st') \<Rightarrow> (Inr (One r), st'))"

section \<open>Well-typed instances\<close>

text \<open>
  A value has the type of a field; a dict is an instance of a schema when it holds
  exactly the schema's fields, in order, each with a value of the field's type.
\<close>

fun has_type :: "ftype \<Rightarrow> pyval \<Rightarrow> bool" where
  "has_type TStr v = is_str v"
| "has_type TStrList v = (case v of PList xs \<Rightarrow> list_all is_str xs | _ \<Rightarrow> False)"
| "has_type TFloat v = (case v of PFloat r \<Rightarrow> True | _ \<Rightarrow> False)"
| "has_type TInt v = (case v of PInt i \<Rightarrow> True | _ \<Rightarrow> False)"
| "has_type TDatetime v = (case v of PDatetime d \<Rightarrow> True | _ \<Rightarrow> False)"

fun instance_of :: "schema \<Rightarrow> doc \<Rightarrow> bool" where
  "instance_of [] d = (d = [])"
| "instance_of ((k, ty, dflt) # fs) d =
     (case d of
        [] \<Rightarrow> False
      | (k', v) # d' \<Rightarrow> k' = k \<and> has_type ty v \<and> instance_of fs d')"

fun all_required :: "schema \<Rightarrow> bool" where
  "all_required [] = True"
| "all_required ((k, ty, dflt) # fs) = (dflt = Required \<and> all_required fs)"

section \<open>An instance of the library and sample inputs\<close>

text \<open>
  To run the handlers on concrete inputs, an instance of the library parameters: no lax
  coercion, and a printer and a parser for the format
  \<^verbatim>\<open>YYYY-MM-DDTHH:MM:SS[.ffffff][+HH:MM]\<close> that \<^verbatim>\<open>isoformat\<close> produces.
\<close>

definition digit10 :: "nat \<Rightarrow> char" where
  "digit10 n = ''0123456789'' ! (n mod 10)"

definition dec2 :: "nat \<Rightarrow> string" where
  "dec2 n = [digit10 (n div 10), digit10 n]"

definition dec4 :: "nat \<Rightarrow> string" where
  "dec4 n = [digit10 (n div 1000), digit10 (n div 100), digit10 (n div 10), digit10 n]"

definition dec6 :: "nat \<Rightarrow> string" where
  "dec6 n = [digit10 (n div 100000), digit10 (n div 10000), digit10 (n div 1000),
             digit10 (n div 100), digit10 (n div 10), digit10 n]"

definition iso_print :: "datetime \<Rightarrow> string" where
  "iso_print d =
     dec4 (year d) @ ''-'' @ dec2 (month d) @ ''-'' @ dec2 (day d) @ ''T''
     @ dec2 (hour d) @ '':'' @ dec2 (minute d) @ '':'' @ dec2 (second d)
     @ (if microsecond d = 0 then [] else ''.'' @ dec6 (microsecond d))
     @ (case tzinfo d of
          None \<Rightarrow> []
        | Some m \<Rightarrow>
            (if m < 0 then ''-'' else ''+'') @ dec2 (nat \<bar>m\<bar> div 60) @ '':''
            @ dec2 (nat \<bar>m\<bar> mod 60))"

definition digit_val :: "char \<Rightarrow> nat option" where
  "digit_val c =
     map_of [(CHR ''0'', 0), (CHR ''1'', 1), (CHR ''2'', 2), (CHR ''3'', 3), (CHR ''4'', 4),
             (CHR ''5'', 5), (CHR ''6'', 6), (CHR ''7'', 7), (CHR ''8'', 8), (CHR ''9'', 9)] c"

fun parse_dec :: "nat \<Rightarrow> string \<Rightarrow> nat option" where
  "parse_dec a [] = Some a"
| "parse_dec a (c # cs) =
     (case digit_val c of None \<Rightarrow> None | Some v \<Rightarrow> parse_dec (10 * a + v) cs)"

definition field_at :: "nat \<Rightarrow> nat \<Rightarrow> string \<Rightarrow> nat option" where
  "field_at off len s = parse_dec 0 (take len (drop off s))"

definition parse_offset :: "string \<Rightarrow> int option option" where
  "parse_offset s =
     (if s = [] then Some None
      else if length s = 6 \<and> (s ! 0 = CHR ''+'' \<or> s ! 0 = CHR ''-'') \<and> s ! 3 = CHR '':''
      then (case (field_at 1 2 s, field_at 4 2 s) of
              (Some h, Some m) \<Rightarrow>
                Some (Some ((if s ! 0 = CHR ''-'' then - 1 else 1) * int (h * 60 + m)))
            | _ \<Rightarrow> None)
      else None)"

definition iso_parse :: "string \<Rightarrow> datetime option" where
  "iso_parse s =
     (let n = length s;
          frac = (n = 26 \<or> n = 32);
          rest = (if frac then 26 else 19)
      in if (n = 19 \<or> n = 25 \<or> n = 26 \<or> n = 32)
            \<and> s ! 4 = CHR ''-'' \<and> s ! 7 = CHR ''-'' \<and> s ! 10 = CHR ''T''
            \<and> s ! 13 = CHR '':'' \<and> s ! 16 = CHR '':''
            \<and> (if frac then s ! 19 = CHR ''.'' else True)
         then (case (field_at 0 4 s, field_at 5 2 s, field_at 8 2 s, field_at 11 2 s,
                     field_at 14 2 s, field_at 17 2 s,
                     if frac then field_at 20 6 s else Some 0,
                     parse_offset (drop rest s)) of
                 (Some y, Some mo, Some d, Some h, Some mi, Some sec, Some us, Some tz) \<Rightarrow>
                   Some \<lparr>year = y, month = mo, day = d, hour = h, minute = mi,
                         second = sec, microsecond = us, tzinfo = tz\<rparr>
               | _ \<Rightarrow> None)
         else None)"

definition pylib0 :: pylib where
  "pylib0 =
     \<lparr>lax_float = (\<lambda>v. None), lax_int = (\<lambda>v. None), lax_datetime = (\<lambda>v. None),
      isoformat = iso_print, fromisoformat = iso_parse\<rparr>"

definition db0 :: db where
  "db0 = \<lparr>destinations = [], trips = [], bookings = [], next_oid = 0\<rparr>"

definition clock0 :: datetime where
  "clock0 =
     \<lparr>year = 2025, month = 11, day = 3, hour = 9, minute = 30, second = 15,
      microsecond = 250000, tzinfo = None\<rparr>"

definition kohima_body :: doc where
  "kohima_body =
     [(''name'', PStr ''Kohima''),
      (''region'', PStr ''Nagaland''),
      (''description'', PStr ''d''),
      (''image_url'', PStr ''http://x''),
      (''highlights'', PList [PStr ''A'']),
      (''best_season'', PStr ''Oct'')]"

definition trip_body :: doc where
  "trip_body =
     [(''destination_id'', PStr ''dest-9''),
      (''destination_name'', PStr ''Kohima''),
      (''title'', PStr ''Kohima Weekend''),
      (''duration'', PStr ''2 Days / 1 Night''),
      (''price_veg'', PFloat 9500),
      (''price_non_veg'', PFloat 10500),
      (''pickup_time'', PStr ''7:00 AM''),
      (''itinerary'', PList [PStr ''Day 1'', PStr ''Day 2'']),
      (''inclusions'', PList [PStr ''Stay'']),
      (''exclusions'', PList [PStr ''Tips'']),
      (''image_url'', PStr ''http://x'')]"

definition booking_body :: doc where
  "booking_body =
     [(''trip_id'', PStr ''trip-1''),
      (''trip_title'', PStr ''Gangtok Paradise - 5 Days''),
      (''customer_name'', PStr ''A Traveller''),
      (''customer_email'', PStr ''a@example.org''),
      (''customer_phone'', PStr ''12345''),
      (''travel_date'', PStr ''2026-01-10''),
      (''guests'', PInt 2),
      (''meal_preference'', PStr ''veg''),
      (''total_amount'', PFloat 37000)]"

section \<open>Properties of the store operations\<close>

lemma matches_Nil: "matches [] d"
  by (simp add: matches_def)

lemma delete_many_all: "delete_many [] coll = []"
  by (simp add: delete_many_def matches_Nil)

lemma project_update_id: "project [k] (AList.update k v d) = project [k] d"
  by (induction d) (auto simp: project_def)

lemma project_absent: "map_of d k = None \<Longrightarrow> project [k] d = d"
  by (induction d) (auto simp: project_def split: if_splits)

lemma project_with_id: "map_of d ''_id'' = None \<Longrightarrow> project [''_id''] (with_id n d) = d"
  by (simp add: with_id_def project_update_id project_absent)

lemma map_of_with_id: "k \<noteq> ''_id'' \<Longrightarrow> map_of (with_id n d) k = map_of d k"
  by (simp add: with_id_def update_conv')

lemma project_insert_many:
  "list_all (\<lambda>d. map_of d ''_id'' = None) ds \<Longrightarrow>
   map (project [''_id'']) (map (\<lambda>(i, d). with_id i d) (enumerate n ds)) = ds"
  by (induction ds arbitrary: n) (simp_all add: project_with_id)

lemma field_insert_many:
  "k \<noteq> ''_id'' \<Longrightarrow>
   map (\<lambda>d. map_of d k) (map (\<lambda>(i, d). with_id i d) (enumerate n ds)) = map (\<lambda>d. map_of d k) ds"
  by (induction ds arbitrary: n) (simp_all add: map_of_with_id)

section \<open>The seed operation\<close>

lemma destinations_data_no_id: "list_all (\<lambda>d. map_of d ''_id'' = None) destinations_data"
  by (simp add: destinations_data_def)

lemma trips_data_no_id: "list_all (\<lambda>d. map_of d ''_id'' = None) trips_data"
  by (simp add: trips_data_def)

lemma length_destinations_data: "length destinations_data = 4"
  by (simp add: destinations_data_def)

lemma length_trips_data: "length trips_data = 4"
  by (simp add: trips_data_def)

lemma seed_destinations:
  "destinations (snd (seed_data st)) =
     map (\<lambda>(i, d). with_id i d) (enumerate (next_oid st) destinations_data)"
  by (simp add: seed_data_def Let_def delete_many_all insert_many_def)

lemma seed_trips:
  "trips (snd (seed_data st)) =
     map (\<lambda>(i, d). with_id i d) (enumerate (next_oid st + 4) trips_data)"
  by (simp add: seed_data_def Let_def delete_many_all insert_many_def length_destinations_data)

lemma seed_summary:
  "fst (seed_data st) =
     [(''message'', PStr ''Database seeded successfully''),
      (''destinations'', PInt 4),
      (''trips'', PInt 4)]"
  by (simp add: seed_data_def Let_def length_destinations_data length_trips_data)

lemma seed_destinations_content:
  "length (destinations (snd (seed_data st))) = 4 \<and>
   map (project [''_id'']) (destinations (snd (seed_data st))) = destinations_data"
  by (simp add: seed_destinations project_insert_many destinations_data_no_id
      length_destinations_data del: map_map)

lemma seed_trips_content:
  "length (trips (snd (seed_data st))) = 4 \<and>
   map (project [''_id'']) (trips (snd (seed_data st))) = trips_data"
  by (simp add: seed_trips project_insert_many trips_data_no_id length_trips_data
      del: map_map)

text \<open>
  Claim C2. Whatever the store held, after the seed operation the destinations
  collection holds exactly the 4 hard-coded destinations and the trips collection
  exactly the 4 hard-coded trips (the store-internal \<^verbatim>\<open>_id\<close> apart, which the store
  assigns afresh), and the summary counts 4 and 4; the same holds after a second
  invocation that follows the first, so nothing is duplicated.
\<close>

theorem seed_data_idempotent:
  "length (destinations (snd (seed_data st))) = 4 \<and>
   length (trips (snd (seed_data st))) = 4 \<and>
   map (project [''_id'']) (destinations (snd (seed_data st))) = destinations_data \<and>
   map (project [''_id'']) (trips (snd (seed_data st))) = trips_data \<and>
   fst (seed_data st) =
     [(''message'', PStr ''Database seeded successfully''),
      (''destinations'', PInt 4), (''trips'', PInt 4)] \<and>
   length (destinations (snd (seed_data (snd (seed_data st))))) = 4 \<and>
   length (trips (snd (seed_data (snd (seed_data st))))) = 4 \<and>
   map (project [''_id'']) (destinations (snd (seed_data (snd (seed_data st)))))
     = destinations_data \<and>
   map (project [''_id'']) (trips (snd (seed_data (snd (seed_data st))))) = trips_data \<and>
   fst (seed_data (snd (seed_data st))) = fst (seed_data st)"
  using seed_destinations_content [of st] seed_trips_content [of st]
    seed_destinations_content [of "snd (seed_data st)"]
    seed_trips_content [of "snd (seed_data st)"]
  by (simp add: seed_summary)

text \<open>
  Claim C6. The seed operation does not touch the bookings collection: the list of
  stored bookings after it is the list before it.
\<close>

theorem seed_data_bookings_unchanged:
  "bookings (snd (seed_data st)) = bookings st \<and>
   length (bookings (snd (seed_data st))) = length (bookings st)"
  by (simp add: seed_data_def Let_def)

text \<open>
  Claim C10. After the seed operation the \<^verbatim>\<open>destination_id\<close> of the N-th stored trip
  is the \<^verbatim>\<open>id\<close> of the N-th stored destination: trip-1 to trip-4 reference dest-1 to
  dest-4, so every stored trip references a stored destination.
\<close>

theorem seed_data_referential_integrity:
  "map (\<lambda>t. map_of t ''destination_id'') (trips (snd (seed_data st)))
     = map (\<lambda>d. map_of d ''id'') (destinations (snd (seed_data st))) \<and>
   map (\<lambda>d. map_of d ''id'') (destinations (snd (seed_data st)))
     = [Some (PStr ''dest-1''), Some (PStr ''dest-2''),
        Some (PStr ''dest-3''), Some (PStr ''dest-4'')] \<and>
   map (\<lambda>t. map_of t ''id'') (trips (snd (seed_data st)))
     = [Some (PStr ''trip-1''), Some (PStr ''trip-2''),
        Some (PStr ''trip-3''), Some (PStr ''trip-4'')] \<and>
   list_all (\<lambda>t. map_of t ''destination_id''
                    \<in> set (map (\<lambda>d. map_of d ''id'') (destinations (snd (seed_data st)))))
     (trips (snd (seed_data st)))"
proof -
  have d: "map (\<lambda>d. map_of d ''id'') (destinations (snd (seed_data st)))
     = [Some (PStr ''dest-1''), Some (PStr ''dest-2''),
        Some (PStr ''dest-3''), Some (PStr ''dest-4'')]"
    by (simp add: seed_destinations field_insert_many del: map_map)
      (simp add: destinations_data_def)
  have t: "map (\<lambda>t. map_of t ''destination_id'') (trips (snd (seed_data st)))
     = [Some (PStr ''dest-1''), Some (PStr ''dest-2''),
        Some (PStr ''dest-3''), Some (PStr ''dest-4'')]"
    by (simp add: seed_trips field_insert_many del: map_map) (simp add: trips_data_def)
  have i: "map (\<lambda>t. map_of t ''id'') (trips (snd (seed_data st)))
     = [Some (PStr ''trip-1''), Some (PStr ''trip-2''),
        Some (PStr ''trip-3''), Some (PStr ''trip-4'')]"
    by (simp add: seed_trips field_insert_many del: map_map) (simp add: trips_data_def)
  have m: "list_all (\<lambda>x. x \<in> set (map (\<lambda>d. map_of d ''id'') (destinations (snd (seed_data st)))))
     (map (\<lambda>t. map_of t ''destination_id'') (trips (snd (seed_data st))))"
    unfolding d t by simp
  from m have "list_all (\<lambda>t. map_of t ''destination_id''
                    \<in> set (map (\<lambda>d. map_of d ''id'') (destinations (snd (seed_data st)))))
     (trips (snd (seed_data st)))"
    by (simp add: list_all_iff)
  with d t i show ?thesis by simp
qed

section \<open>The identifier strings\<close>

lemma length_hex_fixed: "length (hex_fixed k n) = k"
  by (induction k arbitrary: n) simp_all

lemma hexdigit_inj: "hexdigit a = hexdigit b \<Longrightarrow> a mod 16 = b mod 16"
proof -
  have d: "distinct ''0123456789abcdef''" by simp
  have la: "a mod 16 < length ''0123456789abcdef''" by simp
  have lb: "b mod 16 < length ''0123456789abcdef''" by simp
  assume "hexdigit a = hexdigit b"
  then have "''0123456789abcdef'' ! (a mod 16) = ''0123456789abcdef'' ! (b mod 16)"
    by (simp only: hexdigit_def)
  with d la lb show ?thesis
    by (simp only: nth_eq_iff_index_eq)
qed

lemma hex_fixed_inj: "hex_fixed k a = hex_fixed k b \<Longrightarrow> a mod 16 ^ k = b mod 16 ^ k"
proof (induction k arbitrary: a b)
  case 0
  then show ?case by simp
next
  case (Suc k)
  from Suc.prems have e: "hex_fixed k (a div 16) = hex_fixed k (b div 16)"
    and h: "hexdigit a = hexdigit b"
    by (simp_all add: length_hex_fixed)
  from Suc.IH [OF e] have 1: "(a div 16) mod 16 ^ k = (b div 16) mod 16 ^ k" .
  from hexdigit_inj [OF h] have 2: "a mod 16 = b mod 16" .
  have "a mod 16 ^ Suc k = 16 * ((a div 16) mod 16 ^ k) + a mod 16"
    by (simp add: mod_mult2_eq)
  moreover have "b mod 16 ^ Suc k = 16 * ((b div 16) mod 16 ^ k) + b mod 16"
    by (simp add: mod_mult2_eq)
  ultimately show ?case using 1 2 by simp
qed

lemma regroup:
  "(h::string) = take 8 h @ take 4 (drop 8 h) @ take 4 (drop 12 h) @ take 4 (drop 16 h) @ drop 20 h"
proof -
  have "drop 16 h = take 4 (drop 16 h) @ drop 20 h"
    using append_take_drop_id [of 4 "drop 16 h"] by simp
  moreover have "drop 12 h = take 4 (drop 12 h) @ drop 16 h"
    using append_take_drop_id [of 4 "drop 12 h"] by simp
  moreover have "drop 8 h = take 4 (drop 8 h) @ drop 12 h"
    using append_take_drop_id [of 4 "drop 8 h"] by simp
  moreover have "h = take 8 h @ drop 8 h"
    by simp
  ultimately show ?thesis by metis
qed

lemma hyphenate_inj:
  assumes "length h = 32" "length h' = 32"
    and "take 8 h @ ''-'' @ take 4 (drop 8 h) @ ''-'' @ take 4 (drop 12 h) @ ''-''
         @ take 4 (drop 16 h) @ ''-'' @ drop 20 h
       = take 8 h' @ ''-'' @ take 4 (drop 8 h') @ ''-'' @ take 4 (drop 12 h') @ ''-''
         @ take 4 (drop 16 h') @ ''-'' @ drop 20 h'"
  shows "h = h'"
proof -
  from assms have "take 8 h = take 8 h' \<and> take 4 (drop 8 h) = take 4 (drop 8 h')
    \<and> take 4 (drop 12 h) = take 4 (drop 12 h') \<and> take 4 (drop 16 h) = take 4 (drop 16 h')
    \<and> drop 20 h = drop 20 h'"
    by simp
  then show ?thesis
    using regroup [of h] regroup [of h'] by simp
qed

lemma uuid_str_length: "length (uuid_str u) = 36"
  by (simp add: uuid_str_def Let_def length_hex_fixed)

lemma uuid_str_inj: "uuid_str u = uuid_str u' \<Longrightarrow> u = u'"
proof -
  assume "uuid_str u = uuid_str u'"
  then have "hex_fixed 32 (unat u) = hex_fixed 32 (unat u')"
    unfolding uuid_str_def Let_def
    by (rule hyphenate_inj [rotated 2]) (simp_all add: length_hex_fixed)
  then have "unat u mod 16 ^ 32 = unat u' mod 16 ^ 32"
    by (rule hex_fixed_inj)
  moreover have "unat u < 16 ^ 32" "unat u' < 16 ^ 32"
    using unsigned_less [of u] unsigned_less [of u'] by simp_all
  ultimately show "u = u'"
    by (simp add: word_unat_eq_iff)
qed

section \<open>Validation against a schema\<close>

lemma validate_field_typed: "validate_field L ty v = Some v' \<Longrightarrow> has_type ty v'"
  by (cases ty; cases v) (auto split: if_splits)

lemma validate_field_id: "has_type ty v \<Longrightarrow> validate_field L ty v = Some v"
  by (cases ty; cases v) auto

lemma model_init_cong:
  "(\<And>k. k \<in> set (map fst sch) \<Longrightarrow> map_of kw k = map_of kw' k) \<Longrightarrow>
   model_init L u c sch kw = model_init L u c sch kw'"
proof (induction sch)
  case Nil
  then show ?case by simp
next
  case (Cons f fs)
  obtain k ty dflt where f: "f = (k, ty, dflt)" by (cases f)
  have "map_of kw k = map_of kw' k" using Cons.prems f by simp
  moreover have "model_init L u c fs kw = model_init L u c fs kw'"
    by (rule Cons.IH) (simp add: Cons.prems)
  ultimately show ?case by (simp only: f model_init.simps)
qed

lemma model_init_keys: "model_init L u c sch kw = Inr d \<Longrightarrow> map fst d = map fst sch"
proof (induction sch arbitrary: d)
  case Nil
  then show ?case by simp
next
  case (Cons f fs)
  obtain k ty dflt where f: "f = (k, ty, dflt)" by (cases f)
  from Cons.prems obtain v d' where "d = (k, v) # d'" "model_init L u c fs kw = Inr d'"
    by (auto simp: f split: option.splits sum.splits)
  then show ?case using Cons.IH f by simp
qed

lemma model_init_instance_of:
  "all_required sch \<Longrightarrow> model_init L u c sch kw = Inr d \<Longrightarrow> instance_of sch d"
proof (induction sch arbitrary: d)
  case Nil
  then show ?case by simp
next
  case (Cons f fs)
  obtain k ty dflt where f: "f = (k, ty, dflt)" by (cases f)
  from Cons.prems f have r: "dflt = Required" "all_required fs" by simp_all
  from Cons.prems(2) obtain v0 v d' where
    "map_of kw k = Some v0" "validate_field L ty v0 = Some v"
    "d = (k, v) # d'" "model_init L u c fs kw = Inr d'"
    by (auto simp: f r split: option.splits sum.splits)
  then show ?case using Cons.IH r f by (simp add: validate_field_typed)
qed

lemma model_init_required_indep:
  "all_required sch \<Longrightarrow> model_init L u c sch kw = model_init L u' c' sch kw"
proof (induction sch)
  case Nil
  then show ?case by simp
next
  case (Cons f fs)
  obtain k ty dflt where f: "f = (k, ty, dflt)" by (cases f)
  from Cons.prems f have r: "dflt = Required" "all_required fs" by simp_all
  with Cons.IH show ?case by (simp add: f split: option.splits)
qed

lemma instance_of_keys: "instance_of sch d \<Longrightarrow> map fst d = map fst sch"
  by (induction sch d rule: instance_of.induct) (auto split: list.splits)

lemma model_init_of_instance:
  "instance_of sch d \<Longrightarrow> distinct (map fst sch) \<Longrightarrow>
   (\<And>k. k \<in> set (map fst sch) \<Longrightarrow> map_of kw k = map_of d k) \<Longrightarrow>
   model_init L u c sch kw = Inr d"
proof (induction sch arbitrary: d)
  case Nil
  then show ?case by simp
next
  case (Cons f fs)
  obtain k ty dflt where f: "f = (k, ty, dflt)" by (cases f)
  from Cons.prems(1) f obtain v d' where d: "d = (k, v) # d'" and t: "has_type ty v"
    and i: "instance_of fs d'"
    by (auto split: list.splits)
  from Cons.prems(2) f have nk: "k \<notin> set (map fst fs)" and dist: "distinct (map fst fs)"
    by simp_all
  have kv: "map_of kw k = Some v" using Cons.prems(3) [of k] f d by simp
  have "model_init L u c fs kw = Inr d'"
  proof (rule Cons.IH [OF i dist])
    fix k' assume k': "k' \<in> set (map fst fs)"
    then have "k' \<noteq> k" using nk by auto
    then show "map_of kw k' = map_of d' k'" using Cons.prems(3) [of k'] k' f d by simp
  qed
  then show ?case by (simp add: f d kv validate_field_id [OF t])
qed

lemma model_init_append:
  "model_init L u c (fs @ gs) kw =
     (case model_init L u c fs kw of
        Inl e \<Rightarrow> Inl e
      | Inr d \<Rightarrow>
          (case model_init L u c gs kw of Inl e \<Rightarrow> Inl e | Inr d' \<Rightarrow> Inr (d @ d')))"
proof (induction fs)
  case Nil
  then show ?case by (simp split: sum.splits)
next
  case (Cons f fs)
  obtain k ty dflt where f: "f = (k, ty, dflt)" by (cases f)
  show ?case by (simp add: f Cons.IH split: option.splits sum.splits)
qed

lemma map_of_absent: "k \<notin> set (map fst d) \<Longrightarrow> map_of d k = None"
  by (simp add: map_of_eq_None_iff)

lemma model_init_with_id:
  assumes i: "instance_of sch input" and d: "distinct (map fst sch)"
    and n: "''id'' \<notin> set (map fst sch)"
  shows "model_init L u c ((''id'', TStr, DefaultFactoryUuid) # sch) input
           = Inr ((''id'', PStr (uuid_str u)) # input)"
proof -
  have "map_of input ''id'' = None"
    using n instance_of_keys [OF i] by (simp add: map_of_absent)
  moreover have "model_init L u c sch input = Inr input"
    by (rule model_init_of_instance [OF i d]) simp
  ultimately show ?thesis by simp
qed

lemma Destination_schema: "Destination = (''id'', TStr, DefaultFactoryUuid) # DestinationCreate"
  by (simp add: Destination_def DestinationCreate_def)

lemma TripPackage_schema: "TripPackage = (''id'', TStr, DefaultFactoryUuid) # TripPackageCreate"
  by (simp add: TripPackage_def TripPackageCreate_def)

lemma Booking_schema:
  "Booking = ((''id'', TStr, DefaultFactoryUuid) # BookingCreate)
             @ [(''booking_date'', TDatetime, DefaultFactoryNow),
                (''status'', TStr, DefaultValue (PStr ''confirmed''))]"
  by (simp add: Booking_def BookingCreate_def)

lemma DestinationCreate_keys:
  "distinct (map fst DestinationCreate) \<and> ''id'' \<notin> set (map fst DestinationCreate)
   \<and> all_required DestinationCreate"
  by (simp add: DestinationCreate_def)

lemma TripPackageCreate_keys:
  "distinct (map fst TripPackageCreate) \<and> ''id'' \<notin> set (map fst TripPackageCreate)
   \<and> all_required TripPackageCreate"
  by (simp add: TripPackageCreate_def)

lemma BookingCreate_keys:
  "distinct (map fst BookingCreate) \<and> ''id'' \<notin> set (map fst BookingCreate)
   \<and> ''booking_date'' \<notin> set (map fst BookingCreate)
   \<and> ''status'' \<notin> set (map fst BookingCreate)
   \<and> all_required BookingCreate"
  by (simp add: BookingCreate_def)

lemma Destination_init:
  "instance_of DestinationCreate input \<Longrightarrow>
   model_init L u c Destination input = Inr ((''id'', PStr (uuid_str u)) # input)"
  unfolding Destination_schema
  using DestinationCreate_keys by (intro model_init_with_id) simp_all

lemma TripPackage_init:
  "instance_of TripPackageCreate input \<Longrightarrow>
   model_init L u c TripPackage input = Inr ((''id'', PStr (uuid_str u)) # input)"
  unfolding TripPackage_schema
  using TripPackageCreate_keys by (intro model_init_with_id) simp_all

lemma Booking_init:
  assumes i: "instance_of BookingCreate input"
  shows "model_init L u c Booking input
           = Inr ((''id'', PStr (uuid_str u)) # input
                  @ [(''booking_date'', PDatetime (datetime_now_utc c)),
                     (''status'', PStr ''confirmed'')])"
proof -
  have k: "map fst input = map fst BookingCreate" by (rule instance_of_keys [OF i])
  have a: "model_init L u c ((''id'', TStr, DefaultFactoryUuid) # BookingCreate) input
             = Inr ((''id'', PStr (uuid_str u)) # input)"
    using BookingCreate_keys by (intro model_init_with_id [OF i]) simp_all
  have "map_of input ''booking_date'' = None" "map_of input ''status'' = None"
    using k BookingCreate_keys by (simp_all add: map_of_absent)
  then have b: "model_init L u c [(''booking_date'', TDatetime, DefaultFactoryNow),
                (''status'', TStr, DefaultValue (PStr ''confirmed''))] input
             = Inr [(''booking_date'', PDatetime (datetime_now_utc c)),
                     (''status'', PStr ''confirmed'')]"
    by simp
  show ?thesis
    unfolding Booking_schema model_init_append a b by simp
qed

lemma update_absent: "map_of d k = None \<Longrightarrow> AList.update k v d = d @ [(k, v)]"
  by (induction d) (auto split: if_splits)

lemma create_destination_ok:
  assumes i: "instance_of DestinationCreate input"
  shows "create_destination L u c st input =
     (Inr ((''id'', PStr (uuid_str u)) # input),
      st\<lparr>destinations := destinations st
            @ [((''id'', PStr (uuid_str u)) # input) @ [(''_id'', PObjectId (next_oid st))]],
         next_oid := Suc (next_oid st)\<rparr>)"
proof -
  have "map_of input ''_id'' = None"
    using instance_of_keys [OF i] by (simp add: map_of_absent DestinationCreate_def)
  then have "with_id (next_oid st) ((''id'', PStr (uuid_str u)) # input)
    = ((''id'', PStr (uuid_str u)) # input) @ [(''_id'', PObjectId (next_oid st))]"
    by (simp add: with_id_def update_absent)
  then show ?thesis
    by (simp add: create_destination_def model_dump_def Destination_init [OF i] insert_one_def)
qed

end
